theory Spec2Isabelle
  imports Main "HOL-Library.AList"
begin

section \<open>The type-erased callable box \<open>$function<Rt(Tp...)>\<close> of lang/function.hh\<close>

text \<open>
  The class owns at most one heap object through the raw pointer \<open>callable\<close>, allocated
  with \<open>new\<close> and released with \<open>delete\<close>. The embedding keeps the pointer structure:
  a world holds the \<open>callable\<close> field of every \<open>$function\<close> object (indexed by the
  object's own address, so that \<open>this != &other\<close> is a comparison of indices), the heap
  of live \<open>Callable<T>\<close> objects, the log of the objects destroyed by \<open>delete\<close>, and the
  outcomes of the coming allocations.

  Type parameters: \<open>'a\<close> is the argument pack \<open>Tp...\<close>, \<open>'r\<close> the return type \<open>Rt\<close>,
  \<open>'e\<close> the values a wrapped callable may throw, \<open>'s\<close> the data a functor or lambda
  carries by value, \<open>'q\<close> the result type of a functor, convertible to \<open>Rt\<close>.
\<close>

subsection \<open>Failures\<close>

text \<open>
  \<open>EmptyInvocation\<close> is the \<open>throw "called an unset function pointer"\<close> of
  \<open>operator()\<close>; \<open>AllocationFailure\<close> is the exception of a failing \<open>new\<close>;
  \<open>WrappedCallableFailure e\<close> carries, as it is, what the wrapped callable threw;
  \<open>UndefinedBehaviour\<close> marks what C++ leaves undefined: \<open>delete\<close> of, or a virtual
  call through, a pointer to an object that is no longer alive, and the plain \<open>delete\<close>
  of an object that came from the aligned \<open>operator new\<close>.
\<close>

datatype 'e error =
    EmptyInvocation
  | AllocationFailure
  | WrappedCallableFailure 'e
  | UndefinedBehaviour

subsection \<open>Wrapped values and the adapter \<open>Callable<T>\<close>\<close>

text \<open>
  What user code inside a call can do to boxes whose addresses it holds:
  \<open>Move_construct dst src\<close> constructs the box at \<open>dst\<close> by move from the box at \<open>src\<close>
  (\<open>new (dst) $function(std::move(*src))\<close>).
\<close>

datatype box_op = Move_construct nat nat

text \<open>
  The value of the expression \<open>callable(args...)\<close>: already an \<open>Rt\<close>, or a value of the
  callable's own result type together with the implicit conversion of that type to \<open>Rt\<close>.
\<close>

datatype ('r, 'q) result = Exact 'r | Convertible 'q "'q \<Rightarrow> 'r"

fun to_Rt :: "('r, 'q) result \<Rightarrow> 'r" where
  "to_Rt (Exact r) = r"
| "to_Rt (Convertible q conv) = conv q"

text \<open>
  A value of the erased type \<open>T\<close>:
  \<^item> \<open>FnPtr f\<close>, a non-null function pointer of type \<open>Rt (*)(Tp...)\<close>;
  \<^item> \<open>Functor st f conv\<close>, a functor (lambda, class with \<open>operator()\<close>) that carries its
    captured data \<open>st\<close> by value; its call operator \<open>f\<close> may read and change that data, and
    returns a value that \<open>conv\<close> converts to \<open>Rt\<close>;
  \<^item> \<open>Box_functor st f conv\<close>, a functor that also holds addresses of boxes: its call
    operator tells in addition what it did to those boxes.
  The copy constructor of \<open>T\<close> is the member-wise copy of the value. \<open>T\<close> has no extended
  alignment, so that \<open>new Callable<T>\<close> and \<open>delete\<close> are the plain allocation and
  deallocation functions.
\<close>

datatype ('a, 'r, 'e, 's, 'q) target =
    FnPtr "'a \<Rightarrow> 'e + 'r"
  | Functor 's "'s \<Rightarrow> 'a \<Rightarrow> ('e + 'q) \<times> 's" "'q \<Rightarrow> 'r"
  | Box_functor 's "'s \<Rightarrow> 'a \<Rightarrow> ('e + 'q) \<times> 's \<times> box_op list" "'q \<Rightarrow> 'r"

text \<open>
  \<open>c(args...)\<close>: the outcome (thrown value or result, not yet converted), the callable
  afterwards, and what the call did to boxes.
\<close>

fun call ::
  "('a, 'r, 'e, 's, 'q) target \<Rightarrow> 'a \<Rightarrow>
     ('e + ('r, 'q) result) \<times> ('a, 'r, 'e, 's, 'q) target \<times> box_op list" where
  "call (FnPtr f) x = (map_sum id Exact (f x), FnPtr f, [])"
| "call (Functor st f conv) x =
     (case f st x of (r, st') \<Rightarrow>
        (map_sum id (\<lambda>q. Convertible q conv) r, Functor st' f conv, []))"
| "call (Box_functor st f conv) x =
     (case f st x of (r, st', ops) \<Rightarrow>
        (map_sum id (\<lambda>q. Convertible q conv) r, Box_functor st' f conv, ops))"

text \<open>The callable keeps to its own data: it holds no address of a box.\<close>

fun by_value :: "('a, 'r, 'e, 's, 'q) target \<Rightarrow> bool" where
  "by_value (FnPtr f) = True"
| "by_value (Functor st f conv) = True"
| "by_value (Box_functor st f conv) = False"

text \<open>\<open>struct Callable : $callable { T callable; ... }\<close>\<close>

datatype ('a, 'r, 'e, 's, 'q) Callable = Callable (callable: "('a, 'r, 'e, 's, 'q) target")

text \<open>
  \<open>Rt invoke(Tp... args) override { return callable(forward<Tp>(args)...); }\<close>
  The \<open>return\<close> converts the value of the call to \<open>Rt\<close>.
\<close>

definition invoke ::
  "('a, 'r, 'e, 's, 'q) Callable \<Rightarrow> 'a \<Rightarrow>
     ('e + 'r) \<times> ('a, 'r, 'e, 's, 'q) Callable \<times> box_op list" where
  "invoke c x = (case call (callable c) x of (r, t, ops) \<Rightarrow> (map_sum id to_Rt r, Callable t, ops))"

subsection \<open>The world: box objects, heap, allocator\<close>

type_synonym addr = nat
type_synonym box = nat

text \<open>
  The allocation function an object came from: \<open>operator new(size_t)\<close>, or
  \<open>operator new(size_t, align_val_t)\<close>.
\<close>

datatype alloc_form = Plain | Aligned

record ('a, 'r, 'e, 's, 'q) world =
  boxes :: "box \<Rightarrow> addr option"
  heap :: "(addr \<times> ('a, 'r, 'e, 's, 'q) Callable) list"
  form :: "addr \<Rightarrow> alloc_form"
  deleted :: "addr list"
  oom :: "bool list"

text \<open>
  \<open>boxes w b\<close> is the field \<open>callable\<close> of the \<open>$function\<close> object at \<open>b\<close>, \<open>None\<close> for
  \<open>nullptr\<close>. \<open>heap w\<close> lists the live adapters with their addresses, and \<open>form w p\<close> is
  the allocation function that returned the address \<open>p\<close> last. \<open>deleted w\<close> records
  every object destroyed by \<open>delete\<close>, latest first. \<open>oom w\<close> tells for each coming
  allocation whether it runs out of memory (\<open>True\<close>); past the end of the list every
  allocation succeeds.
\<close>

type_synonym ('x, 'a, 'r, 'e, 's, 'q) action =
  "('a, 'r, 'e, 's, 'q) world \<Rightarrow> ('e error + 'x) \<times> ('a, 'r, 'e, 's, 'q) world"

text \<open>An address that no live object has.\<close>

definition fresh :: "(addr \<times> 'v) list \<Rightarrow> addr" where
  "fresh h = Suc (foldr max (map fst h) 0)"

text \<open>The coming allocation runs out of memory.\<close>

definition alloc_fails :: "('a, 'r, 'e, 's, 'q) world \<Rightarrow> bool" where
  "alloc_fails w = (case oom w of True # rest \<Rightarrow> True | _ \<Rightarrow> False)"

text \<open>
  A \<open>new\<close> expression for \<open>Callable<T>(v)\<close> through the allocation function \<open>fm\<close>: throws
  when out of memory, else there is a new live object.
\<close>

definition allocate ::
  "alloc_form \<Rightarrow> ('a, 'r, 'e, 's, 'q) target \<Rightarrow> (addr, 'a, 'r, 'e, 's, 'q) action" where
  "allocate fm v w =
     (if alloc_fails w then (Inl AllocationFailure, w\<lparr>oom := tl (oom w)\<rparr>)
      else (Inr (fresh (heap w)),
            w\<lparr>heap := (fresh (heap w), Callable v) # heap w,
              form := (form w)(fresh (heap w) := fm),
              oom := tl (oom w)\<rparr>))"

text \<open>\<open>new Callable<T>(v)\<close>\<close>

definition new_Callable ::
  "('a, 'r, 'e, 's, 'q) target \<Rightarrow> (addr, 'a, 'r, 'e, 's, 'q) action" where
  "new_Callable v = allocate Plain v"

text \<open>
  \<open>delete p\<close>, the plain form: nothing for \<open>nullptr\<close>; undefined for a pointer to no live
  object and for an object from the aligned allocation function; else the object is
  destroyed.
\<close>

fun delete_ptr :: "addr option \<Rightarrow> (unit, 'a, 'r, 'e, 's, 'q) action" where
  "delete_ptr None w = (Inr (), w)"
| "delete_ptr (Some p) w =
     (case map_of (heap w) p of
        None \<Rightarrow> (Inl UndefinedBehaviour, w)
      | Some obj \<Rightarrow>
          (case form w p of
             Aligned \<Rightarrow> (Inl UndefinedBehaviour, w)
           | Plain \<Rightarrow>
               (Inr (), w\<lparr>heap := AList.delete p (heap w), deleted := p # deleted w\<rparr>)))"

text \<open>
  \<open>$callable *clone() const override {
     return new (align_val_t(alignof(Callable<T>))) Callable(callable); }\<close>
\<close>

definition clone :: "('a, 'r, 'e, 's, 'q) Callable \<Rightarrow> (addr, 'a, 'r, 'e, 's, 'q) action" where
  "clone obj w = allocate Aligned (callable obj) w"

text \<open>The assignment \<open>callable = p\<close> inside the box at \<open>this\<close>.\<close>

definition set_callable :: "box \<Rightarrow> addr option \<Rightarrow> (unit, 'a, 'r, 'e, 's, 'q) action" where
  "set_callable this p w = (Inr (), w\<lparr>boxes := (boxes w)(this := p)\<rparr>)"

text \<open>Sequencing: an exception of the first action leaves the second undone.\<close>

definition and_then ::
  "('x, 'a, 'r, 'e, 's, 'q) action \<Rightarrow> ('x \<Rightarrow> ('y, 'a, 'r, 'e, 's, 'q) action) \<Rightarrow>
     ('y, 'a, 'r, 'e, 's, 'q) action" where
  "and_then m f w = (case m w of (Inl e, w') \<Rightarrow> (Inl e, w') | (Inr x, w') \<Rightarrow> f x w')"

text \<open>\<open>p->clone()\<close> through the pointer \<open>p\<close> for \<open>p\<close> non-null, else \<open>nullptr\<close>.\<close>

definition clone_or_null :: "addr option \<Rightarrow> (addr option, 'a, 'r, 'e, 's, 'q) action" where
  "clone_or_null p w =
     (case p of
        None \<Rightarrow> (Inr None, w)
      | Some a \<Rightarrow>
          (case map_of (heap w) a of
             None \<Rightarrow> (Inl UndefinedBehaviour, w)
           | Some obj \<Rightarrow> and_then (clone obj) (\<lambda>q w'. (Inr (Some q), w')) w))"

subsection \<open>The members of \<open>$function\<close>\<close>

text \<open>\<open>$function() : callable(nullptr) {}\<close>\<close>

definition function_default :: "box \<Rightarrow> (unit, 'a, 'r, 'e, 's, 'q) action" where
  "function_default this = set_callable this None"

text \<open>\<open>$function($function &&other) noexcept : callable(other.callable) { other.callable = nullptr; }\<close>\<close>

definition function_move :: "box \<Rightarrow> box \<Rightarrow> (unit, 'a, 'r, 'e, 's, 'q) action" where
  "function_move this other w =
     and_then (set_callable this (boxes w other)) (\<lambda>_. set_callable other None) w"

text \<open>\<open>$function(const $function &other) : callable(other.callable ? other.callable->clone() : nullptr) {}\<close>\<close>

definition function_copy :: "box \<Rightarrow> box \<Rightarrow> (unit, 'a, 'r, 'e, 's, 'q) action" where
  "function_copy this other w =
     and_then (clone_or_null (boxes w other)) (\<lambda>q. set_callable this q) w"

text \<open>
  \<open>template <typename T> $function(T $call_o) { callable = new Callable<decay_t<T>>(forward<T>($call_o)); }\<close>
  The overload taking \<open>ref::remove_ref_t<T>\<close> has the same body.
\<close>

definition function_callable :: "box \<Rightarrow> ('a, 'r, 'e, 's, 'q) target \<Rightarrow> (unit, 'a, 'r, 'e, 's, 'q) action" where
  "function_callable this c = and_then (new_Callable c) (\<lambda>q. set_callable this (Some q))"

text \<open>\<open>$function(Rt (*func)(Tp...)) : callable(func ? new Callable<...>(func) : nullptr) {}\<close>\<close>

definition function_fnptr :: "box \<Rightarrow> ('a \<Rightarrow> 'e + 'r) option \<Rightarrow> (unit, 'a, 'r, 'e, 's, 'q) action" where
  "function_fnptr this func =
     (case func of
        None \<Rightarrow> set_callable this None
      | Some f \<Rightarrow> and_then (new_Callable (FnPtr f)) (\<lambda>q. set_callable this (Some q)))"

text \<open>\<open>void reset() noexcept { if (callable) { delete callable; callable = nullptr; } }\<close>\<close>

definition reset :: "box \<Rightarrow> (unit, 'a, 'r, 'e, 's, 'q) action" where
  "reset this w =
     (if boxes w this \<noteq> None
      then and_then (delete_ptr (boxes w this)) (\<lambda>_. set_callable this None) w
      else (Inr (), w))"

text \<open>\<open>~$function() { reset(); }\<close>\<close>

definition function_dtor :: "box \<Rightarrow> (unit, 'a, 'r, 'e, 's, 'q) action" where
  "function_dtor this = reset this"

text \<open>
  \<open>operator=($function &&other)\<close>:
  \<open>if (this != &other) { reset(); callable = other.callable; other.callable = nullptr; }\<close>
\<close>

definition assign_move :: "box \<Rightarrow> box \<Rightarrow> (unit, 'a, 'r, 'e, 's, 'q) action" where
  "assign_move this other w =
     (if this \<noteq> other
      then and_then (reset this)
             (\<lambda>_ w1. and_then (set_callable this (boxes w1 other))
                        (\<lambda>_. set_callable other None) w1) w
      else (Inr (), w))"

text \<open>
  \<open>operator=(const $function &other)\<close>:
  \<open>if (this != &other) { reset(); callable = other.callable ? other.callable->clone() : nullptr; }\<close>
\<close>

definition assign_copy :: "box \<Rightarrow> box \<Rightarrow> (unit, 'a, 'r, 'e, 's, 'q) action" where
  "assign_copy this other w =
     (if this \<noteq> other
      then and_then (reset this)
             (\<lambda>_ w1. and_then (clone_or_null (boxes w1 other)) (\<lambda>q. set_callable this q) w1) w
      else (Inr (), w))"

text \<open>
  \<open>template <typename T> operator=(T $call_o)\<close>:
  \<open>delete callable; callable = new Callable<decay_t<T>>(forward<T>($call_o));\<close>
\<close>

definition assign_callable :: "box \<Rightarrow> ('a, 'r, 'e, 's, 'q) target \<Rightarrow> (unit, 'a, 'r, 'e, 's, 'q) action" where
  "assign_callable this c w =
     and_then (delete_ptr (boxes w this))
       (\<lambda>_. and_then (new_Callable c) (\<lambda>q. set_callable this (Some q))) w"

text \<open>
  \<open>operator=(Rt (*func)(Tp...))\<close>:
  \<open>delete callable; callable = func ? new Callable<...>(func) : nullptr;\<close>
\<close>

definition assign_fnptr :: "box \<Rightarrow> ('a \<Rightarrow> 'e + 'r) option \<Rightarrow> (unit, 'a, 'r, 'e, 's, 'q) action" where
  "assign_fnptr this func w =
     and_then (delete_ptr (boxes w this))
       (\<lambda>_. case func of
               None \<Rightarrow> set_callable this None
             | Some f \<Rightarrow> and_then (new_Callable (FnPtr f)) (\<lambda>q. set_callable this (Some q))) w"

text \<open>\<open>explicit operator bool() const noexcept { return callable != nullptr; }\<close>\<close>

definition operator_bool :: "box \<Rightarrow> ('a, 'r, 'e, 's, 'q) world \<Rightarrow> bool" where
  "operator_bool this w = (boxes w this \<noteq> None)"

text \<open>What a call did to boxes, carried out in the world.\<close>

fun perform :: "box_op list \<Rightarrow> ('a, 'r, 'e, 's, 'q) world \<Rightarrow> ('a, 'r, 'e, 's, 'q) world" where
  "perform [] w = w"
| "perform (Move_construct dst src # ops) w = perform ops (snd (function_move dst src w))"

text \<open>
  \<open>Rt operator()(Tp... args)\<close>:
  \<open>if (!callable) throw "called an unset function pointer"; return callable->invoke(args...);\<close>
  The virtual call runs the adapter at the pointer: the adapter keeps the data the call
  left, and what the call did to boxes has happened when it returns or throws.
\<close>

definition operator_call :: "box \<Rightarrow> 'a \<Rightarrow> ('r, 'a, 'r, 'e, 's, 'q) action" where
  "operator_call this args w =
     (case boxes w this of
        None \<Rightarrow> (Inl EmptyInvocation, w)
      | Some p \<Rightarrow>
          (case map_of (heap w) p of
             None \<Rightarrow> (Inl UndefinedBehaviour, w)
           | Some obj \<Rightarrow>
               (case invoke obj args of
                  (Inl e, obj', ops) \<Rightarrow>
                    (Inl (WrappedCallableFailure e),
                     perform ops (w\<lparr>heap := AList.update p obj' (heap w)\<rparr>))
                | (Inr r, obj', ops) \<Rightarrow>
                    (Inr r, perform ops (w\<lparr>heap := AList.update p obj' (heap w)\<rparr>)))))"

subsection \<open>Observations used by the properties\<close>

text \<open>
  What the box at \<open>b\<close> holds: \<open>None\<close> when empty, \<open>Some None\<close> when its pointer is
  dangling, \<open>Some (Some obj)\<close> when it points to the live adapter \<open>obj\<close>.
\<close>

definition content ::
  "('a, 'r, 'e, 's, 'q) world \<Rightarrow> box \<Rightarrow>
     ('a, 'r, 'e, 's, 'q) Callable option option" where
  "content w b = map_option (map_of (heap w)) (boxes w b)"

text \<open>The box is empty or points to a live adapter (the class invariant).\<close>

definition valid_box :: "('a, 'r, 'e, 's, 'q) world \<Rightarrow> box \<Rightarrow> bool" where
  "valid_box w b = (case boxes w b of None \<Rightarrow> True | Some p \<Rightarrow> map_of (heap w) p \<noteq> None)"

text \<open>The outcomes of invoking the box at \<open>b\<close> on each argument of a list in turn.\<close>

fun calls :: "box \<Rightarrow> 'a list \<Rightarrow> ('a, 'r, 'e, 's, 'q) world \<Rightarrow> ('e error + 'r) list" where
  "calls b [] w = []"
| "calls b (x # xs) w = (case operator_call b x w of (r, w') \<Rightarrow> r # calls b xs w')"


text \<open>The box at \<open>a\<close> does not point to the object that the box at \<open>b\<close> points to.\<close>

definition unaliased :: "('a, 'r, 'e, 's, 'q) world \<Rightarrow> box \<Rightarrow> box \<Rightarrow> bool" where
  "unaliased w a b = (case boxes w a of None \<Rightarrow> True | Some p \<Rightarrow> boxes w b \<noteq> Some p)"

text \<open>The box at \<open>b\<close> is empty, or what it points to came from the plain \<open>new\<close>.\<close>

definition plain_box :: "('a, 'r, 'e, 's, 'q) world \<Rightarrow> box \<Rightarrow> bool" where
  "plain_box w b = (case boxes w b of None \<Rightarrow> True | Some p \<Rightarrow> form w p = Plain)"

text \<open>The box at \<open>b\<close> holds no adapter of a callable that holds addresses of boxes.\<close>

definition by_value_box :: "('a, 'r, 'e, 's, 'q) world \<Rightarrow> box \<Rightarrow> bool" where
  "by_value_box w b =
     (case content w b of Some (Some obj) \<Rightarrow> by_value (callable obj) | _ \<Rightarrow> True)"


text \<open>A world with no box set and no live object, where every allocation succeeds.\<close>

definition empty_world :: "('a, 'r, 'e, 's, 'q) world" where
  "empty_world =
     \<lparr>boxes = (\<lambda>_. None), heap = [], form = (\<lambda>_. Plain), deleted = [], oom = []\<rparr>"

text \<open>
  A counting functor: each call returns the argument plus the count, as a natural number
  that converts to \<open>int\<close>, and counts up.
\<close>

definition counter :: "(int, int, string, int, nat) target" where
  "counter = Functor 0 (\<lambda>n x. (Inr (nat (x + n)), n + 1)) int"

text \<open>A function that fails on negative arguments and adds one otherwise.\<close>

definition add_one :: "int \<Rightarrow> string + int" where
  "add_one x = (if x < 0 then Inl ''negative'' else Inr (x + 1))"


text \<open>Box 0 holds an adapter of the value \<open>t\<close> at address 1; \<open>ooms\<close> fixes the allocator.\<close>

definition one_box ::
  "(int, int, string, int, nat) target \<Rightarrow> bool list \<Rightarrow> (int, int, string, int, nat) world" where
  "one_box t ooms =
     \<lparr>boxes = (\<lambda>_. None)(0 := Some 1), heap = [(1, Callable t)], form = (\<lambda>_. Plain),
      deleted = [], oom = ooms\<rparr>"

text \<open>Box 0 holds the counter at address 1, box 1 holds \<open>&add_one\<close> at address 2.\<close>

definition two_boxes :: "(int, int, string, int, nat) world" where
  "two_boxes =
     \<lparr>boxes = ((\<lambda>_. None)(0 := Some 1))(1 := Some 2),
      heap = [(1, Callable counter), (2, Callable (FnPtr add_one))], form = (\<lambda>_. Plain),
      deleted = [], oom = []\<rparr>"

text \<open>
  Box 0 holds the counter at address 1, and box 1 a copy of it at address 2, made by
  \<open>clone()\<close>.
\<close>

definition copied :: "(int, int, string, int, nat) world" where
  "copied =
     \<lparr>boxes = ((\<lambda>_. None)(0 := Some 1))(1 := Some 2),
      heap = [(2, Callable counter), (1, Callable counter)], form = (\<lambda>_. Plain)(2 := Aligned),
      deleted = [], oom = []\<rparr>"


section \<open>Properties\<close>

subsection \<open>Allocation and invocation, step by step\<close>

lemma le_foldr_max: "a \<in> set xs \<Longrightarrow> a \<le> foldr max xs (0::nat)"
  by (induction xs) (auto simp: max_def)

lemma fresh_not_live: "map_of h (fresh h) = None"
proof -
  have "fresh h \<notin> fst ` set h"
  proof
    assume "fresh h \<in> fst ` set h"
    then have "fresh h \<in> set (map fst h)" by simp
    then have "fresh h \<le> foldr max (map fst h) 0" by (rule le_foldr_max)
    then show False by (simp add: fresh_def)
  qed
  then show ?thesis by (simp add: map_of_eq_None_iff)
qed

lemma allocate_ok:
  "\<not> alloc_fails w \<Longrightarrow>
   allocate fm v w =
     (Inr (fresh (heap w)),
      w\<lparr>heap := (fresh (heap w), Callable v) # heap w,
        form := (form w)(fresh (heap w) := fm), oom := tl (oom w)\<rparr>)"
  by (simp add: allocate_def)

lemma allocate_oom:
  "alloc_fails w \<Longrightarrow> allocate fm v w = (Inl AllocationFailure, w\<lparr>oom := tl (oom w)\<rparr>)"
  by (simp add: allocate_def)

lemma invoke_by_value:
  "by_value (callable obj) \<Longrightarrow>
   snd (snd (invoke obj x)) = [] \<and> by_value (callable (fst (snd (invoke obj x))))"
  by (cases obj; cases "callable obj") (auto simp: invoke_def split: prod.splits)

lemma heap_perform: "heap (perform ops w) = heap w"
  by (induction ops w rule: perform.induct)
     (simp_all add: function_move_def and_then_def set_callable_def)


lemma form_perform: "form (perform ops w) = form w"
  by (induction ops w rule: perform.induct)
     (simp_all add: function_move_def and_then_def set_callable_def)


lemma operator_call_empty:
  "boxes w b = None \<Longrightarrow> operator_call b x w = (Inl EmptyInvocation, w)"
  by (simp add: operator_call_def)

lemma operator_call_dangling:
  "boxes w b = Some p \<Longrightarrow> map_of (heap w) p = None \<Longrightarrow>
   operator_call b x w = (Inl UndefinedBehaviour, w)"
  by (simp add: operator_call_def)

lemma operator_call_holding:
  "boxes w b = Some p \<Longrightarrow> map_of (heap w) p = Some obj \<Longrightarrow>
   operator_call b x w =
     (map_sum WrappedCallableFailure id (fst (invoke obj x)),
      perform (snd (snd (invoke obj x)))
        (w\<lparr>heap := AList.update p (fst (snd (invoke obj x))) (heap w)\<rparr>))"
  by (auto simp: operator_call_def split: prod.splits sum.splits)

lemma operator_call_by_value:
  "boxes w b = Some p \<Longrightarrow> map_of (heap w) p = Some obj \<Longrightarrow> by_value (callable obj) \<Longrightarrow>
   operator_call b x w =
     (map_sum WrappedCallableFailure id (fst (invoke obj x)),
      w\<lparr>heap := AList.update p (fst (snd (invoke obj x))) (heap w)\<rparr>)"
  by (simp add: operator_call_holding invoke_by_value)

lemma by_value_box_holding:
  "boxes w b = Some p \<Longrightarrow> map_of (heap w) p = Some obj \<Longrightarrow>
   by_value_box w b = by_value (callable obj)"
  by (simp add: by_value_box_def content_def)




lemma calls_content:
  "content w b = content w' b' \<Longrightarrow> by_value_box w b \<Longrightarrow> calls b xs w = calls b' xs w'"
proof (induction xs arbitrary: w w')
  case Nil
  show ?case by simp
next
  case (Cons x xs)
  show ?case
  proof (cases "boxes w b")
    case None
    with Cons.prems have n': "boxes w' b' = None" by (simp add: content_def)
    from Cons.IH [OF Cons.prems] None n' show ?thesis
      by (simp add: operator_call_empty)
  next
    case (Some p)
    with Cons.prems obtain p' where p': "boxes w' b' = Some p'"
      and eq: "map_of (heap w) p = map_of (heap w') p'"
      by (cases "boxes w' b'") (auto simp: content_def)
    show ?thesis
    proof (cases "map_of (heap w) p")
      case None
      with eq have "map_of (heap w') p' = None" by simp
      with None Some p' Cons.IH [OF Cons.prems] show ?thesis
        by (simp add: operator_call_dangling)
    next
      case (Some obj)
      with eq have o': "map_of (heap w') p' = Some obj" by simp
      from Cons.prems(2) \<open>boxes w b = Some p\<close> Some have v: "by_value (callable obj)"
        by (simp add: by_value_box_holding)
      let ?obj = "fst (snd (invoke obj x))"
      let ?w1 = "w\<lparr>heap := AList.update p ?obj (heap w)\<rparr>"
      let ?w1' = "w'\<lparr>heap := AList.update p' ?obj (heap w')\<rparr>"
      have c: "content ?w1 b = content ?w1' b'"
        using \<open>boxes w b = Some p\<close> p' by (simp add: content_def update_conv')
      have bv: "by_value_box ?w1 b"
        using \<open>boxes w b = Some p\<close> invoke_by_value [OF v, of x]
        by (simp add: by_value_box_def content_def update_conv')
      from Cons.IH [OF c bv] show ?thesis
        using \<open>boxes w b = Some p\<close> p' Some o' v
        by (simp add: operator_call_by_value)
    qed
  qed
qed



subsection \<open>The members, as state transformers\<close>

lemma reset_plain:
  assumes "valid_box w this" and "plain_box w this"
  shows "reset this w =
     (Inr (), w\<lparr>heap := (case boxes w this of None \<Rightarrow> heap w | Some p \<Rightarrow> AList.delete p (heap w)),
               deleted := (case boxes w this of None \<Rightarrow> deleted w | Some p \<Rightarrow> p # deleted w),
               boxes := (boxes w)(this := None)\<rparr>)"
  using assms
  by (auto simp: reset_def valid_box_def plain_box_def and_then_def set_callable_def fun_upd_idem
        split: option.splits)

lemma delete_aligned:
  "map_of (heap w) p = Some obj \<Longrightarrow> form w p = Aligned \<Longrightarrow>
   delete_ptr (Some p) w = (Inl UndefinedBehaviour, w)"
  by simp

lemma reset_aligned:
  "boxes w this = Some p \<Longrightarrow> map_of (heap w) p = Some obj \<Longrightarrow> form w p = Aligned \<Longrightarrow>
   reset this w = (Inl UndefinedBehaviour, w)"
  by (simp add: reset_def and_then_def)

lemma function_callable_ok:
  "\<not> alloc_fails w \<Longrightarrow>
   function_callable this c w =
     (Inr (), w\<lparr>heap := (fresh (heap w), Callable c) # heap w,
               form := (form w)(fresh (heap w) := Plain), oom := tl (oom w),
               boxes := (boxes w)(this := Some (fresh (heap w)))\<rparr>)"
  by (simp add: function_callable_def new_Callable_def and_then_def allocate_ok set_callable_def)

lemma function_callable_oom:
  "alloc_fails w \<Longrightarrow>
   function_callable this c w = (Inl AllocationFailure, w\<lparr>oom := tl (oom w)\<rparr>)"
  by (simp add: function_callable_def new_Callable_def and_then_def allocate_oom)

lemma assign_fnptr_Some: "assign_fnptr this (Some f) w = assign_callable this (FnPtr f) w"
  by (simp add: assign_fnptr_def assign_callable_def)

lemma function_fnptr_Some: "function_fnptr this (Some f) w = function_callable this (FnPtr f) w"
  by (simp add: function_fnptr_def function_callable_def)

lemma assign_callable_ok:
  assumes "boxes w this = Some p" and "map_of (heap w) p = Some obj" and "form w p = Plain"
    and "\<not> alloc_fails w"
  shows "assign_callable this c w =
     (Inr (), w\<lparr>heap := (fresh (AList.delete p (heap w)), Callable c) # AList.delete p (heap w),
               deleted := p # deleted w,
               form := (form w)(fresh (AList.delete p (heap w)) := Plain),
               oom := tl (oom w),
               boxes := (boxes w)(this := Some (fresh (AList.delete p (heap w))))\<rparr>)"
proof -
  let ?w1 = "w\<lparr>heap := AList.delete p (heap w), deleted := p # deleted w\<rparr>"
  have d: "delete_ptr (boxes w this) w = (Inr (), ?w1)"
    using assms(1-3) by simp
  have a: "\<not> alloc_fails ?w1"
    using assms(4) by (simp add: alloc_fails_def)
  show ?thesis
    by (simp add: assign_callable_def and_then_def d new_Callable_def allocate_ok [OF a]
          set_callable_def)
qed

lemma assign_callable_fails:
  assumes "boxes w this = Some p" and "map_of (heap w) p = Some obj" and "form w p = Plain"
    and "alloc_fails w"
  shows "assign_callable this c w =
     (Inl AllocationFailure,
      w\<lparr>heap := AList.delete p (heap w), deleted := p # deleted w, oom := tl (oom w)\<rparr>)"
proof -
  let ?w1 = "w\<lparr>heap := AList.delete p (heap w), deleted := p # deleted w\<rparr>"
  have d: "delete_ptr (boxes w this) w = (Inr (), ?w1)"
    using assms(1-3) by simp
  have a: "alloc_fails ?w1"
    using assms(4) by (simp add: alloc_fails_def)
  show ?thesis
    by (simp add: assign_callable_def and_then_def d new_Callable_def allocate_oom [OF a])
qed

lemma assign_callable_holding:
  assumes "boxes w this = Some p" and "map_of (heap w) p = Some obj" and "form w p = Plain"
  shows "deleted (snd (assign_callable this c w)) = p # deleted w
    \<and> (\<not> alloc_fails w \<longrightarrow>
         fst (assign_callable this c w) = Inr ()
       \<and> boxes (snd (assign_callable this c w)) this = Some (fresh (AList.delete p (heap w)))
       \<and> heap (snd (assign_callable this c w))
           = (fresh (AList.delete p (heap w)), Callable c) # AList.delete p (heap w)
       \<and> content (snd (assign_callable this c w)) this = Some (Some (Callable c)))
    \<and> (alloc_fails w \<longrightarrow>
         fst (assign_callable this c w) = Inl AllocationFailure
       \<and> heap (snd (assign_callable this c w)) = AList.delete p (heap w))"
proof (cases "alloc_fails w")
  case True
  then show ?thesis by (simp add: assign_callable_fails [OF assms True])
next
  case False
  then show ?thesis by (simp add: assign_callable_ok [OF assms False] content_def)
qed

lemma assign_callable_oom:
  "assign_callable 0 (FnPtr add_one) (one_box counter [True])
     = (Inl AllocationFailure,
        \<lparr>boxes = (\<lambda>_. None)(0 := Some 1), heap = [], form = (\<lambda>_. Plain), deleted = [1],
         oom = []\<rparr>)"
proof -
  have "alloc_fails (one_box counter [True])"
    by (simp add: alloc_fails_def one_box_def)
  from assign_callable_fails [OF _ _ _ this, of 0 1 "Callable counter" "FnPtr add_one"]
  show ?thesis by (simp add: one_box_def)
qed

lemma function_move_eq:
  "function_move this other w =
     (Inr (), w\<lparr>boxes := ((boxes w)(this := boxes w other))(other := None)\<rparr>)"
  by (simp add: function_move_def and_then_def set_callable_def)

lemma assign_move_eq:
  assumes "this \<noteq> other" and "valid_box w this" and "plain_box w this"
  shows "assign_move this other w =
     (Inr (), w\<lparr>heap := (case boxes w this of None \<Rightarrow> heap w | Some p \<Rightarrow> AList.delete p (heap w)),
               deleted := (case boxes w this of None \<Rightarrow> deleted w | Some p \<Rightarrow> p # deleted w),
               boxes := ((boxes w)(this := boxes w other))(other := None)\<rparr>)"
  using assms(1)
  by (simp add: assign_move_def and_then_def reset_plain [OF assms(2,3)] set_callable_def)

lemma move_ctor_facts:
  assumes "this \<noteq> other"
  shows "fst (function_move this other w) = Inr ()
   \<and> \<not> operator_bool other (snd (function_move this other w))
   \<and> operator_bool this (snd (function_move this other w)) = operator_bool other w
   \<and> heap (snd (function_move this other w)) = heap w
   \<and> deleted (snd (function_move this other w)) = deleted w
   \<and> content (snd (function_move this other w)) this = content w other
   \<and> (by_value_box w other \<longrightarrow>
        calls this xs (snd (function_move this other w)) = calls other xs w)"
proof -
  have c: "content (snd (function_move this other w)) this = content w other"
    using assms by (simp add: function_move_eq content_def)
  have "by_value_box w other \<Longrightarrow>
        calls this xs (snd (function_move this other w)) = calls other xs w"
    using calls_content [OF c [symmetric], of xs] by simp
  with c assms show ?thesis
    by (auto simp: function_move_eq operator_bool_def)
qed

lemma move_assign_facts:
  assumes "this \<noteq> other" and "valid_box w this" and "plain_box w this"
    and "unaliased w this other"
  shows "fst (assign_move this other w) = Inr ()
   \<and> \<not> operator_bool other (snd (assign_move this other w))
   \<and> operator_bool this (snd (assign_move this other w)) = operator_bool other w
   \<and> deleted (snd (assign_move this other w))
       = (case boxes w this of None \<Rightarrow> deleted w | Some p \<Rightarrow> p # deleted w)
   \<and> content (snd (assign_move this other w)) this = content w other
   \<and> (by_value_box w other \<longrightarrow>
        calls this xs (snd (assign_move this other w)) = calls other xs w)"
proof -
  have c: "content (snd (assign_move this other w)) this = content w other"
    using assms(1,4)
    by (cases "boxes w other")
       (auto simp: assign_move_eq [OF assms(1-3)] content_def unaliased_def delete_conv'
          split: option.splits)
  have "by_value_box w other \<Longrightarrow>
        calls this xs (snd (assign_move this other w)) = calls other xs w"
    using calls_content [OF c [symmetric], of xs] by simp
  with c assms(1) show ?thesis
    by (auto simp: assign_move_eq [OF assms(1-3)] operator_bool_def)
qed

lemma function_copy_success:
  assumes "function_copy this other w = (Inr u, w')"
  shows "(boxes w other = None \<and> w' = w\<lparr>boxes := (boxes w)(this := None)\<rparr>)
       \<or> (\<exists>p obj. boxes w other = Some p \<and> map_of (heap w) p = Some obj
            \<and> w' = w\<lparr>heap := (fresh (heap w), obj) # heap w,
                      form := (form w)(fresh (heap w) := Aligned), oom := tl (oom w),
                      boxes := (boxes w)(this := Some (fresh (heap w)))\<rparr>)"
proof (cases "boxes w other")
  case None
  with assms show ?thesis
    by (auto simp: function_copy_def and_then_def clone_or_null_def set_callable_def)
next
  case (Some p)
  show ?thesis
  proof (cases "map_of (heap w) p")
    case None
    with Some assms show ?thesis
      by (simp add: function_copy_def and_then_def clone_or_null_def)
  next
    case (Some obj)
    with \<open>boxes w other = Some p\<close> assms show ?thesis
      by (cases "alloc_fails w")
         (auto simp: function_copy_def and_then_def clone_or_null_def clone_def allocate_def
            set_callable_def)
  qed
qed

lemma function_copy_succeeds:
  "valid_box w other \<Longrightarrow> \<not> alloc_fails w \<Longrightarrow> fst (function_copy this other w) = Inr ()"
  by (auto simp: function_copy_def and_then_def clone_or_null_def clone_def allocate_def
        set_callable_def valid_box_def split: option.splits)

lemma copy_then_reset_undefined:
  assumes "this \<noteq> other" and "function_copy this other w = (Inr u, w')"
    and "operator_bool other w"
  shows "reset this w' = (Inl UndefinedBehaviour, w')"
  using function_copy_success [OF assms(2)] assms(1,3)
  by (auto simp: operator_bool_def reset_def and_then_def)

lemma copied_is_copy: "function_copy 1 0 (one_box counter []) = (Inr (), copied)"
  by (simp add: function_copy_def clone_or_null_def clone_def and_then_def allocate_def
        alloc_fails_def set_callable_def one_box_def copied_def fresh_def numeral_2_eq_2)

text \<open>
  On a box in a valid state whose content, if any, came from the plain \<open>new\<close>,
  \<open>reset()\<close> returns normally, leaves the box empty and destroys what it held once;
  assigning a null function pointer does the same.
\<close>

lemma reset_empties_plain_box:
  assumes "valid_box w this" and "plain_box w this"
  shows "fst (reset this w) = Inr ()
     \<and> \<not> operator_bool this (snd (reset this w))
     \<and> operator_call this x (snd (reset this w)) = (Inl EmptyInvocation, snd (reset this w))
     \<and> deleted (snd (reset this w))
         = (case boxes w this of None \<Rightarrow> deleted w | Some p \<Rightarrow> p # deleted w)
     \<and> heap (snd (reset this w))
         = (case boxes w this of None \<Rightarrow> heap w | Some p \<Rightarrow> AList.delete p (heap w))
     \<and> content (snd (reset this w)) this = None
     \<and> reset this (snd (reset this w)) = (Inr (), snd (reset this w))"
  by (simp add: reset_plain [OF assms] operator_bool_def operator_call_empty content_def)
     (simp add: reset_def)

lemma assign_null_fnptr_plain_box:
  assumes "valid_box w this" and "plain_box w this"
  shows "fst (assign_fnptr this None w) = Inr ()
     \<and> \<not> operator_bool this (snd (assign_fnptr this None w))
     \<and> boxes (snd (assign_fnptr this None w)) = (boxes w)(this := None)
     \<and> deleted (snd (assign_fnptr this None w))
         = (case boxes w this of None \<Rightarrow> deleted w | Some p \<Rightarrow> p # deleted w)
     \<and> heap (snd (assign_fnptr this None w))
         = (case boxes w this of None \<Rightarrow> heap w | Some p \<Rightarrow> AList.delete p (heap w))"
  using assms
  by (auto simp: assign_fnptr_def valid_box_def plain_box_def and_then_def set_callable_def
        operator_bool_def split: option.splits)

section \<open>The claims\<close>

text \<open>
  C1. The templated constructor succeeds whenever its allocation does, and fails with
  \<open>AllocationFailure\<close> otherwise. The box it builds from a callable \<open>c\<close> calls through to
  \<open>c\<close>: invoking it on \<open>x\<close> gives the outcome of \<open>c(x)\<close>, the result converted to \<open>Rt\<close>
  and a thrown value as \<open>WrappedCallableFailure\<close>, and the adapter then holds the
  callable as \<open>c(x)\<close> left it.
\<close>

theorem box_call_equals_direct_call:
  "(\<not> alloc_fails w \<longrightarrow> fst (function_callable this c w) = Inr ())
   \<and> (alloc_fails w \<longrightarrow> fst (function_callable this c w) = Inl AllocationFailure)
   \<and> (fst (function_callable this c w) = Inr () \<longrightarrow>
        fst (operator_call this x (snd (function_callable this c w)))
          = map_sum WrappedCallableFailure to_Rt (fst (call c x))
      \<and> map_of (heap (snd (operator_call this x (snd (function_callable this c w)))))
            (fresh (heap w))
          = Some (Callable (fst (snd (call c x))))
      \<and> (by_value c \<longrightarrow>
            content (snd (operator_call this x (snd (function_callable this c w)))) this
              = Some (Some (Callable (fst (snd (call c x)))))))"
proof (cases "alloc_fails w")
  case True
  then show ?thesis by (simp add: function_callable_oom)
next
  case False
  let ?q = "fresh (heap w)"
  let ?w' = "snd (function_callable this c w)"
  have b: "boxes ?w' this = Some ?q" and h: "map_of (heap ?w') ?q = Some (Callable c)"
    by (simp_all add: function_callable_ok [OF False])
  have i: "invoke (Callable c) x
      = (map_sum id to_Rt (fst (call c x)), Callable (fst (snd (call c x))), snd (snd (call c x)))"
    by (simp add: invoke_def split: prod.splits)
  have r: "fst (operator_call this x ?w')
      = map_sum WrappedCallableFailure to_Rt (fst (call c x))"
    by (cases "fst (call c x)") (simp_all add: operator_call_holding [OF b h] i)
  have m: "map_of (heap (snd (operator_call this x ?w'))) ?q
      = Some (Callable (fst (snd (call c x))))"
    by (simp add: operator_call_holding [OF b h] i heap_perform update_conv')
  have v: "by_value c \<Longrightarrow>
      content (snd (operator_call this x ?w')) this = Some (Some (Callable (fst (snd (call c x)))))"
  proof -
    assume "by_value c"
    then have bv: "by_value (callable (Callable c))" by simp
    show ?thesis
      by (simp add: operator_call_by_value [OF b h bv] i content_def b update_conv')
  qed
  from False r m v show ?thesis
    by (simp add: function_callable_ok [OF False])
qed

theorem box_call_equals_direct_call_witness:
  "\<not> alloc_fails (empty_world :: (int, int, string, int, nat) world)
   \<and> by_value counter
   \<and> function_callable 0 counter empty_world
     = (Inr (), \<lparr>boxes = (\<lambda>_. None)(0 := Some 1), heap = [(1, Callable counter)],
                 form = (\<lambda>_. Plain), deleted = [], oom = []\<rparr>)
   \<and> fst (operator_call 0 5 (snd (function_callable 0 counter empty_world))) = Inr 5
   \<and> alloc_fails (one_box counter [True])
   \<and> fst (function_callable 1 counter (one_box counter [True])) = Inl AllocationFailure"
proof -
  have a: "\<not> alloc_fails (empty_world :: (int, int, string, int, nat) world)"
    and f: "alloc_fails (one_box counter [True])"
    by (simp_all add: alloc_fails_def empty_world_def one_box_def)
  have v: "by_value counter"
    by (simp add: counter_def)
  have h: "function_callable 0 counter empty_world
     = (Inr (), \<lparr>boxes = (\<lambda>_. None)(0 := Some 1), heap = [(1, Callable counter)],
                 form = (\<lambda>_. Plain), deleted = [], oom = []\<rparr>)"
    by (simp add: function_callable_ok [OF a]) (simp add: empty_world_def fresh_def fun_eq_iff)
  note t = box_call_equals_direct_call [of empty_world 0 counter 5]
  from t a have ok: "fst (function_callable 0 counter empty_world) = Inr ()"
    by blast
  with t have "fst (operator_call 0 5 (snd (function_callable 0 counter empty_world)))
      = map_sum WrappedCallableFailure to_Rt (fst (call counter 5))"
    by blast
  then have c: "fst (operator_call 0 5 (snd (function_callable 0 counter empty_world))) = Inr 5"
    by (simp add: counter_def)
  from box_call_equals_direct_call [of "one_box counter [True]" 1 counter 5] f
  have o: "fst (function_callable 1 counter (one_box counter [True])) = Inl AllocationFailure"
    by blast
  from a v h c f o show ?thesis by blast
qed

text \<open>
  C2. \<open>operator()\<close> fails with \<open>EmptyInvocation\<close> exactly when the box is empty, and then
  nothing else has happened: the world is unchanged. On a box that holds a live adapter the
  outcome is the adapter's: its result, or what it threw, carried as it is.
\<close>

theorem invoke_empty_iff_and_propagates:
  "(fst (operator_call this x w) = Inl EmptyInvocation \<longleftrightarrow> \<not> operator_bool this w)
   \<and> (\<not> operator_bool this w \<longrightarrow> operator_call this x w = (Inl EmptyInvocation, w))
   \<and> (boxes w this = Some p \<and> map_of (heap w) p = Some obj \<longrightarrow>
        fst (operator_call this x w) = map_sum WrappedCallableFailure id (fst (invoke obj x)))"
  by (cases "fst (invoke obj x)")
     (auto simp: operator_call_def operator_bool_def split: option.splits prod.splits sum.splits)

theorem invoke_empty_iff_and_propagates_witness:
  "\<not> operator_bool 0 (empty_world :: (int, int, string, int, nat) world)
   \<and> operator_call 0 5 (empty_world :: (int, int, string, int, nat) world)
       = (Inl EmptyInvocation, empty_world)
   \<and> boxes (one_box (FnPtr add_one) []) 0 = Some 1
   \<and> map_of (heap (one_box (FnPtr add_one) [])) 1 = Some (Callable (FnPtr add_one))
   \<and> fst (operator_call 0 (- 1) (one_box (FnPtr add_one) []))
       = Inl (WrappedCallableFailure ''negative'')"
proof -
  have e: "\<not> operator_bool 0 (empty_world :: (int, int, string, int, nat) world)"
    by (simp add: operator_bool_def empty_world_def)
  from invoke_empty_iff_and_propagates
    [of 0 5 "empty_world :: (int, int, string, int, nat) world" 1 "Callable counter"] e
  have c1: "operator_call 0 5 (empty_world :: (int, int, string, int, nat) world)
       = (Inl EmptyInvocation, empty_world)"
    by blast
  have b: "boxes (one_box (FnPtr add_one) []) 0 = Some 1"
    and m: "map_of (heap (one_box (FnPtr add_one) [])) 1 = Some (Callable (FnPtr add_one))"
    by (simp_all add: one_box_def)
  note t = invoke_empty_iff_and_propagates
    [of 0 "- 1" "one_box (FnPtr add_one) []" 1 "Callable (FnPtr add_one)"]
  have "fst (operator_call 0 (- 1) (one_box (FnPtr add_one) []))
       = map_sum WrappedCallableFailure id
           (fst (invoke (Callable (FnPtr add_one) :: (int, int, string, int, nat) Callable) (- 1)))"
    by (rule t [THEN conjunct2, THEN conjunct2, THEN mp, OF conjI [OF b m]])
  then have c2: "fst (operator_call 0 (- 1) (one_box (FnPtr add_one) []))
       = Inl (WrappedCallableFailure ''negative'')"
    by (simp add: invoke_def add_one_def)
  from e c1 b m c2 show ?thesis by blast
qed

text \<open>
  C3, at an input where it fails. Box 0 holds the counter and the next allocation runs out
  of memory. Both assignments have destroyed the counter when \<open>new\<close> throws, and the box
  is left with its old pointer, now dangling; the destructor would delete it again.
\<close>

theorem assignment_keeps_content_counterexample:
  "content (one_box counter [True]) 0 = Some (Some (Callable counter))
   \<and> fst (assign_callable 0 (FnPtr add_one) (one_box counter [True])) = Inl AllocationFailure
   \<and> content (snd (assign_callable 0 (FnPtr add_one) (one_box counter [True]))) 0 = Some None
   \<and> fst (assign_fnptr 0 (Some add_one) (one_box counter [True])) = Inl AllocationFailure
   \<and> content (snd (assign_fnptr 0 (Some add_one) (one_box counter [True]))) 0 = Some None
   \<and> fst (function_dtor 0 (snd (assign_callable 0 (FnPtr add_one) (one_box counter [True]))))
       = Inl UndefinedBehaviour"
  by (simp add: assign_fnptr_Some assign_callable_oom content_def function_dtor_def reset_def
        and_then_def)
     (simp add: one_box_def)

text \<open>
  C3, as the code has it. Assigning a callable or a non-null function pointer to a box
  whose content came from the plain \<open>new\<close> destroys that content first, exactly once,
  and allocates the replacement afterwards. When that allocation succeeds the assignment
  returns normally and the box holds the new adapter; when it runs out of memory the
  assignment fails with \<open>AllocationFailure\<close> and the old content is already gone from
  the heap.
\<close>

theorem assignment_releases_then_allocates:
  assumes "boxes w this = Some p" and "map_of (heap w) p = Some obj" and "form w p = Plain"
  shows "(deleted (snd (assign_callable this c w)) = p # deleted w
    \<and> (\<not> alloc_fails w \<longrightarrow>
         fst (assign_callable this c w) = Inr ()
       \<and> boxes (snd (assign_callable this c w)) this = Some (fresh (AList.delete p (heap w)))
       \<and> heap (snd (assign_callable this c w))
           = (fresh (AList.delete p (heap w)), Callable c) # AList.delete p (heap w)
       \<and> content (snd (assign_callable this c w)) this = Some (Some (Callable c)))
    \<and> (alloc_fails w \<longrightarrow>
         fst (assign_callable this c w) = Inl AllocationFailure
       \<and> heap (snd (assign_callable this c w)) = AList.delete p (heap w)))
   \<and> (deleted (snd (assign_fnptr this (Some f) w)) = p # deleted w
    \<and> (\<not> alloc_fails w \<longrightarrow>
         fst (assign_fnptr this (Some f) w) = Inr ()
       \<and> boxes (snd (assign_fnptr this (Some f) w)) this = Some (fresh (AList.delete p (heap w)))
       \<and> heap (snd (assign_fnptr this (Some f) w))
           = (fresh (AList.delete p (heap w)), Callable (FnPtr f)) # AList.delete p (heap w)
       \<and> content (snd (assign_fnptr this (Some f) w)) this = Some (Some (Callable (FnPtr f))))
    \<and> (alloc_fails w \<longrightarrow>
         fst (assign_fnptr this (Some f) w) = Inl AllocationFailure
       \<and> heap (snd (assign_fnptr this (Some f) w)) = AList.delete p (heap w)))"
  unfolding assign_fnptr_Some
  using assign_callable_holding [OF assms, of c] assign_callable_holding [OF assms, of "FnPtr f"]
  by (rule conjI)

theorem assignment_releases_then_allocates_witness:
  "boxes (one_box counter []) 0 = Some 1
   \<and> map_of (heap (one_box counter [])) 1 = Some (Callable counter)
   \<and> form (one_box counter []) 1 = Plain
   \<and> \<not> alloc_fails (one_box counter [])
   \<and> fst (assign_callable 0 (FnPtr add_one) (one_box counter [])) = Inr ()
   \<and> content (snd (assign_callable 0 (FnPtr add_one) (one_box counter []))) 0
       = Some (Some (Callable (FnPtr add_one)))
   \<and> deleted (snd (assign_callable 0 (FnPtr add_one) (one_box counter []))) = [1]
   \<and> boxes (one_box counter [True]) 0 = Some 1
   \<and> map_of (heap (one_box counter [True])) 1 = Some (Callable counter)
   \<and> form (one_box counter [True]) 1 = Plain
   \<and> alloc_fails (one_box counter [True])
   \<and> fst (assign_fnptr 0 (Some add_one) (one_box counter [True])) = Inl AllocationFailure
   \<and> heap (snd (assign_fnptr 0 (Some add_one) (one_box counter [True]))) = []"
proof -
  have b: "boxes (one_box counter []) 0 = Some 1"
    and m: "map_of (heap (one_box counter [])) 1 = Some (Callable counter)"
    and p: "form (one_box counter []) 1 = Plain"
    and b': "boxes (one_box counter [True]) 0 = Some 1"
    and m': "map_of (heap (one_box counter [True])) 1 = Some (Callable counter)"
    and p': "form (one_box counter [True]) 1 = Plain"
    by (simp_all add: one_box_def)
  have a: "\<not> alloc_fails (one_box counter [])" and a': "alloc_fails (one_box counter [True])"
    by (simp_all add: alloc_fails_def one_box_def)
  note t = assignment_releases_then_allocates [OF b m p, of "FnPtr add_one" add_one]
  note t' = assignment_releases_then_allocates [OF b' m' p', of "FnPtr add_one" add_one]
  from t a have ok: "fst (assign_callable 0 (FnPtr add_one) (one_box counter [])) = Inr ()"
    by blast
  from t a have c: "content (snd (assign_callable 0 (FnPtr add_one) (one_box counter []))) 0
       = Some (Some (Callable (FnPtr add_one)))"
    by blast
  from t have "deleted (snd (assign_callable 0 (FnPtr add_one) (one_box counter [])))
       = 1 # deleted (one_box counter [])"
    by blast
  then have d: "deleted (snd (assign_callable 0 (FnPtr add_one) (one_box counter []))) = [1]"
    by (simp add: one_box_def)
  from t' a'
  have ko: "fst (assign_fnptr 0 (Some add_one) (one_box counter [True])) = Inl AllocationFailure"
    by blast
  from t' a' have "heap (snd (assign_fnptr 0 (Some add_one) (one_box counter [True])))
       = AList.delete 1 (heap (one_box counter [True]))"
    by blast
  then have h: "heap (snd (assign_fnptr 0 (Some add_one) (one_box counter [True]))) = []"
    by (simp add: one_box_def)
  from b m p a ok c d b' m' p' a' ko h show ?thesis by blast
qed

text \<open>
  C4, at an input where the code breaks it. Box 1 is a copy of box 0, so its adapter came
  from the aligned \<open>operator new\<close> of \<open>clone()\<close>. Move assignment into box 1 runs
  \<open>reset()\<close>, whose plain \<open>delete\<close> of that adapter is undefined: the move does not
  complete. (Move construction, and move assignment into a box that is empty or holds
  content from the plain \<open>new\<close>, transfer the content as claimed: \<open>move_ctor_facts\<close>,
  \<open>move_assign_facts\<close>.)
\<close>

theorem move_assign_onto_copy_undefined:
  "function_copy 1 0 (one_box counter []) = (Inr (), copied)
   \<and> valid_box copied 1 \<and> unaliased copied 1 0 \<and> operator_bool 0 copied
   \<and> assign_move 1 0 copied = (Inl UndefinedBehaviour, copied)"
  using copied_is_copy
  by (simp add: valid_box_def unaliased_def operator_bool_def assign_move_def reset_def
        and_then_def copied_def)



text \<open>
  C6. Assigning a box to itself, by copy or by move, returns normally and leaves the
  whole world as it was: no pointer changes and nothing is deleted.
\<close>

theorem self_assignment_noop:
  "assign_copy b b w = (Inr (), w) \<and> assign_move b b w = (Inr (), w)"
  by (simp add: assign_copy_def assign_move_def)

text \<open>
  C7, at an input where the code breaks it. Box 1 is a copy of box 0: it is in a valid
  state and non-empty, and its adapter came from the aligned \<open>operator new\<close> of
  \<open>clone()\<close>. \<open>reset()\<close>, and so the destructor, deletes it in the plain form, which is
  undefined. (On content from the plain \<open>new\<close> the claim holds:
  \<open>reset_empties_plain_box\<close>.)
\<close>

theorem reset_of_copy_undefined:
  "function_copy 1 0 (one_box counter []) = (Inr (), copied)
   \<and> valid_box copied 1 \<and> operator_bool 1 copied
   \<and> reset 1 copied = (Inl UndefinedBehaviour, copied)
   \<and> function_dtor 1 copied = (Inl UndefinedBehaviour, copied)"
  using copied_is_copy
  by (simp add: valid_box_def operator_bool_def function_dtor_def reset_def and_then_def
        copied_def)

text \<open>
  C8. The constructor from a function pointer: a null pointer gives an empty box and
  cannot fail; a non-null pointer \<open>f\<close> gives, when the allocation succeeds, a box pointing
  to a newly allocated adapter that wraps \<open>f\<close>, and fails with \<open>AllocationFailure\<close>, with
  boxes and heap as they were, when the allocation runs out of memory.
\<close>

theorem function_fnptr_null_or_adapter:
  "function_fnptr this None w = (Inr (), w\<lparr>boxes := (boxes w)(this := None)\<rparr>)
   \<and> \<not> operator_bool this (snd (function_fnptr this None w))
   \<and> (fst (function_fnptr this (Some f) w) = Inr ()
       \<or> fst (function_fnptr this (Some f) w) = Inl AllocationFailure)
   \<and> (\<not> alloc_fails w \<longrightarrow> fst (function_fnptr this (Some f) w) = Inr ())
   \<and> (alloc_fails w \<longrightarrow>
         fst (function_fnptr this (Some f) w) = Inl AllocationFailure
       \<and> boxes (snd (function_fnptr this (Some f) w)) = boxes w
       \<and> heap (snd (function_fnptr this (Some f) w)) = heap w)
   \<and> (fst (function_fnptr this (Some f) w) = Inr () \<longrightarrow>
         operator_bool this (snd (function_fnptr this (Some f) w))
       \<and> content (snd (function_fnptr this (Some f) w)) this = Some (Some (Callable (FnPtr f)))
       \<and> boxes (snd (function_fnptr this (Some f) w)) this = Some (fresh (heap w))
       \<and> map_of (heap w) (fresh (heap w)) = None
       \<and> heap (snd (function_fnptr this (Some f) w))
           = (fresh (heap w), Callable (FnPtr f)) # heap w
       \<and> form (snd (function_fnptr this (Some f) w)) (fresh (heap w)) = Plain)"
proof (cases "alloc_fails w")
  case True
  then show ?thesis
    by (simp add: function_fnptr_Some function_callable_oom)
       (simp add: function_fnptr_def set_callable_def operator_bool_def)
next
  case False
  then show ?thesis
    by (simp add: function_fnptr_Some function_callable_ok operator_bool_def content_def
          fresh_not_live)
       (simp add: function_fnptr_def set_callable_def)
qed

theorem function_fnptr_null_or_adapter_witness:
  "\<not> alloc_fails (empty_world :: (int, int, string, int, nat) world)
   \<and> function_fnptr 0 (Some add_one) (empty_world :: (int, int, string, int, nat) world)
     = (Inr (), \<lparr>boxes = (\<lambda>_. None)(0 := Some 1), heap = [(1, Callable (FnPtr add_one))],
                 form = (\<lambda>_. Plain), deleted = [], oom = []\<rparr>)
   \<and> operator_bool 0 (snd (function_fnptr 0 (Some add_one)
        (empty_world :: (int, int, string, int, nat) world)))
   \<and> fst (operator_call 0 5 (snd (function_fnptr 0 (Some add_one)
        (empty_world :: (int, int, string, int, nat) world)))) = Inr 6
   \<and> alloc_fails (one_box counter [True])
   \<and> fst (function_fnptr 1 (Some add_one) (one_box counter [True])) = Inl AllocationFailure
   \<and> heap (snd (function_fnptr 1 (Some add_one) (one_box counter [True])))
       = [(1, Callable counter)]"
proof -
  have a: "\<not> alloc_fails (empty_world :: (int, int, string, int, nat) world)"
    and a': "alloc_fails (one_box counter [True])"
    by (simp_all add: alloc_fails_def empty_world_def one_box_def)
  have h: "function_fnptr 0 (Some add_one) (empty_world :: (int, int, string, int, nat) world)
     = (Inr (), \<lparr>boxes = (\<lambda>_. None)(0 := Some 1), heap = [(1, Callable (FnPtr add_one))],
                 form = (\<lambda>_. Plain), deleted = [], oom = []\<rparr>)"
    by (simp add: function_fnptr_Some function_callable_ok [OF a])
       (simp add: empty_world_def fresh_def fun_eq_iff)
  note t = function_fnptr_null_or_adapter
    [of 0 "empty_world :: (int, int, string, int, nat) world" add_one]
  from t a
  have f: "fst (function_fnptr 0 (Some add_one) (empty_world :: (int, int, string, int, nat) world))
      = Inr ()"
    by blast
  with t have ob: "operator_bool 0 (snd (function_fnptr 0 (Some add_one)
        (empty_world :: (int, int, string, int, nat) world)))"
    by blast
  have c: "fst (operator_call 0 5 (snd (function_fnptr 0 (Some add_one)
        (empty_world :: (int, int, string, int, nat) world)))) = Inr 6"
    by (simp add: h operator_call_def invoke_def add_one_def)
  note t' = function_fnptr_null_or_adapter [of 1 "one_box counter [True]" add_one]
  from t' a'
  have k: "fst (function_fnptr 1 (Some add_one) (one_box counter [True])) = Inl AllocationFailure"
    by blast
  from t' a' have "heap (snd (function_fnptr 1 (Some add_one) (one_box counter [True])))
      = heap (one_box counter [True])"
    by blast
  then have g: "heap (snd (function_fnptr 1 (Some add_one) (one_box counter [True])))
       = [(1, Callable counter)]"
    by (simp add: one_box_def)
  from a h ob c a' k g show ?thesis by blast
qed

text \<open>
  C9, at an input where the code breaks it. Box 1 is a copy of box 0, with its adapter
  from the aligned \<open>operator new\<close> of \<open>clone()\<close>. Assigning a null function pointer
  deletes that adapter in the plain form, which is undefined; the box is not emptied.
  (On content from the plain \<open>new\<close> the claim holds: \<open>assign_null_fnptr_plain_box\<close>.)
\<close>

theorem assign_null_to_copy_undefined:
  "function_copy 1 0 (one_box counter []) = (Inr (), copied)
   \<and> valid_box copied 1 \<and> operator_bool 1 copied
   \<and> assign_fnptr 1 None copied = (Inl UndefinedBehaviour, copied)"
  using copied_is_copy
  by (simp add: valid_box_def operator_bool_def assign_fnptr_def and_then_def copied_def)




end
